theory Spec2Isabelle
  imports Main "HOL-Library.Word"
begin

section \<open>Values exchanged with the outside world\<close>

text \<open>
  Go strings are byte sequences, so they are modelled as \<open>string\<close> (a list of bytes).
  The packages \<open>encoding/json\<close>, \<open>net/http\<close>, \<open>net/url\<close> and \<open>os\<close> belong to
  the Go standard library. JSON texts are represented by the value they denote: a
  response body or a file content is either \<open>NotJSON\<close> (the decoder reports a
  syntax error, an empty input or a read failure) or \<open>JSON j\<close> for the first JSON
  value \<open>j\<close> of the stream. A number is \<open>JInt n\<close> when its literal is written in
  plain integer syntax and \<open>JNonInt\<close> otherwise (fraction or exponent).
\<close>

datatype json =
    JNull
  | JBool bool
  | JInt int
  | JNonInt
  | JString string
  | JArray "json list"
  | JObject "(string \<times> json) list"

datatype body = NotJSON | JSON json

datatype error =
    OpenError
  | CreateError
  | WriteError
  | SyntaxError
  | UnmarshalTypeError
  | TransportError
  | StatusError nat
  | NoTracksFound

subsection \<open>\<open>spotify.Token\<close> and \<open>spotify.Client\<close>\<close>

text \<open>\<open>ExpiresIn\<close> is a Go \<open>int\<close>: a signed 64-bit integer, read with \<open>sint\<close>.\<close>

record Token =
  AccessToken :: string
  RefreshToken :: string
  ExpiresIn :: "64 word"
  TokenType :: string
  Scope :: string

record Client =
  ClientID :: string
  ClientSecret :: string
  RedirectURI :: string
  Scopes :: "string list"
  State :: string

definition New :: "string \<Rightarrow> string \<Rightarrow> string \<Rightarrow> string list \<Rightarrow> string \<Rightarrow> Client" where
  "New clientID clientSecret redirectURI scopes state =
     \<lparr>ClientID = clientID, ClientSecret = clientSecret, RedirectURI = redirectURI,
      Scopes = scopes, State = state\<rparr>"

text \<open>The zero value of \<open>var token Token\<close>.\<close>

definition zero_Token :: Token where
  "zero_Token = \<lparr>AccessToken = [], RefreshToken = [], ExpiresIn = 0, TokenType = [], Scope = []\<rparr>"

subsection \<open>Decoding a JSON value into a \<open>Token\<close>\<close>

text \<open>
  \<open>json.Decoder.Decode(&token)\<close> matches each key of an object with the \<open>json\<close> tag
  of a field, "preferring an exact match but also accepting a case-insensitive
  match" (documentation of \<open>json.Unmarshal\<close>; modelled on ASCII letters). It skips a
  key that names no field, leaves a field untouched on \<open>null\<close>, lets a later
  duplicate key overwrite an earlier one, and reports an \<open>UnmarshalTypeError\<close> for a
  value of the wrong kind or for an integer outside the range of \<open>int\<close>. A top-level
  \<open>null\<close> leaves the struct untouched; any other top-level value that is not an
  object is an error.
\<close>

text \<open>An upper-case ASCII letter becomes lower case when bit 5 is set (32 is added).\<close>

definition ascii_lower :: "char \<Rightarrow> char" where
  "ascii_lower c =
     (if 65 \<le> (of_char c :: nat) \<and> (of_char c :: nat) \<le> 90 then
        (case c of Char b0 b1 b2 b3 b4 b5 b6 b7 \<Rightarrow> Char b0 b1 b2 b3 b4 True b6 b7)
      else c)"

datatype field = F_access_token | F_refresh_token | F_expires_in | F_token_type | F_scope

definition field_of_key :: "string \<Rightarrow> field option" where
  "field_of_key k =
     (let f = map ascii_lower k in
      if f = ''access_token'' then Some F_access_token
      else if f = ''refresh_token'' then Some F_refresh_token
      else if f = ''expires_in'' then Some F_expires_in
      else if f = ''token_type'' then Some F_token_type
      else if f = ''scope'' then Some F_scope
      else None)"

definition store_string :: "json \<Rightarrow> string \<Rightarrow> error + string" where
  "store_string v old =
     (case v of JString s \<Rightarrow> Inr s | JNull \<Rightarrow> Inr old | _ \<Rightarrow> Inl UnmarshalTypeError)"

definition store_int :: "json \<Rightarrow> 64 word \<Rightarrow> error + 64 word" where
  "store_int v old =
     (case v of
        JInt n \<Rightarrow> if - (2 ^ 63) \<le> n \<and> n < 2 ^ 63 then Inr (word_of_int n)
                  else Inl UnmarshalTypeError
      | JNull \<Rightarrow> Inr old
      | _ \<Rightarrow> Inl UnmarshalTypeError)"

definition store_field :: "Token \<Rightarrow> string \<Rightarrow> json \<Rightarrow> error + Token" where
  "store_field t k v =
     (case field_of_key k of
        None \<Rightarrow> Inr t
      | Some F_access_token \<Rightarrow>
          (case store_string v (AccessToken t) of
             Inl e \<Rightarrow> Inl e | Inr s \<Rightarrow> Inr (t\<lparr>AccessToken := s\<rparr>))
      | Some F_refresh_token \<Rightarrow>
          (case store_string v (RefreshToken t) of
             Inl e \<Rightarrow> Inl e | Inr s \<Rightarrow> Inr (t\<lparr>RefreshToken := s\<rparr>))
      | Some F_expires_in \<Rightarrow>
          (case store_int v (ExpiresIn t) of
             Inl e \<Rightarrow> Inl e | Inr n \<Rightarrow> Inr (t\<lparr>ExpiresIn := n\<rparr>))
      | Some F_token_type \<Rightarrow>
          (case store_string v (TokenType t) of
             Inl e \<Rightarrow> Inl e | Inr s \<Rightarrow> Inr (t\<lparr>TokenType := s\<rparr>))
      | Some F_scope \<Rightarrow>
          (case store_string v (Scope t) of
             Inl e \<Rightarrow> Inl e | Inr s \<Rightarrow> Inr (t\<lparr>Scope := s\<rparr>)))"

fun decode_fields :: "Token \<Rightarrow> (string \<times> json) list \<Rightarrow> error + Token" where
  "decode_fields t [] = Inr t"
| "decode_fields t ((k, v) # kvs) =
     (case store_field t k v of Inl e \<Rightarrow> Inl e | Inr t' \<Rightarrow> decode_fields t' kvs)"

definition decode_Token :: "json \<Rightarrow> error + Token" where
  "decode_Token j =
     (case j of
        JObject kvs \<Rightarrow> decode_fields zero_Token kvs
      | JNull \<Rightarrow> Inr zero_Token
      | _ \<Rightarrow> Inl UnmarshalTypeError)"

definition decode_body :: "body \<Rightarrow> error + Token" where
  "decode_body b = (case b of NotJSON \<Rightarrow> Inl SyntaxError | JSON j \<Rightarrow> decode_Token j)"

subsection \<open>Encoding a \<open>Token\<close>\<close>

text \<open>
  \<open>json.Encoder.Encode\<close> writes string values "coerced to valid UTF-8, replacing
  invalid bytes with the Unicode replacement rune" (documentation of
  \<open>json.Marshal\<close>): every byte that does not start a well-formed UTF-8 sequence is
  replaced by U+FFFD, whose encoding is the three bytes EF BF BD. \<open>rune_size\<close> is the
  width of the well-formed sequence at the head of a string, and 0 when there is none
  (\<open>utf8.DecodeRuneInString\<close> returning \<open>RuneError\<close> with size 1).
\<close>

definition in_range :: "nat \<Rightarrow> nat \<Rightarrow> char \<Rightarrow> bool" where
  "in_range lo hi b = (lo \<le> of_char b \<and> of_char b \<le> hi)"

definition cont :: "char \<Rightarrow> bool" where
  "cont b = in_range 128 191 b"

fun rune_size :: "string \<Rightarrow> nat" where
  "rune_size [] = 0"
| "rune_size (b # bs) =
     (let x = (of_char b :: nat) in
      if x < 128 then 1
      else if 194 \<le> x \<and> x \<le> 223 then
        (case bs of b1 # _ \<Rightarrow> if cont b1 then 2 else 0 | _ \<Rightarrow> 0)
      else if 224 \<le> x \<and> x \<le> 239 then
        (case bs of
           b1 # b2 # _ \<Rightarrow>
             if in_range (if x = 224 then 160 else 128) (if x = 237 then 159 else 191) b1
                \<and> cont b2 then 3 else 0
         | _ \<Rightarrow> 0)
      else if 240 \<le> x \<and> x \<le> 244 then
        (case bs of
           b1 # b2 # b3 # _ \<Rightarrow>
             if in_range (if x = 240 then 144 else 128) (if x = 244 then 143 else 191) b1
                \<and> cont b2 \<and> cont b3 then 4 else 0
         | _ \<Rightarrow> 0)
      else 0)"

definition replacement_char :: string where
  "replacement_char = [CHR 0xEF, CHR 0xBF, CHR 0xBD]"

fun coerce_utf8 :: "string \<Rightarrow> string" where
  "coerce_utf8 [] = []"
| "coerce_utf8 (b # bs) =
     (let n = rune_size (b # bs) in
      if n = 0 then replacement_char @ coerce_utf8 bs
      else b # take (n - 1) bs @ coerce_utf8 (drop (n - 1) bs))"

text \<open>\<open>utf8.ValidString\<close>: the string is a sequence of well-formed UTF-8 sequences.\<close>

fun valid_utf8 :: "string \<Rightarrow> bool" where
  "valid_utf8 [] = True"
| "valid_utf8 (b # bs) =
     (let n = rune_size (b # bs) in n \<noteq> 0 \<and> valid_utf8 (drop (n - 1) bs))"

definition encode_Token :: "Token \<Rightarrow> json" where
  "encode_Token t =
     JObject [(''access_token'', JString (coerce_utf8 (AccessToken t))),
              (''refresh_token'', JString (coerce_utf8 (RefreshToken t))),
              (''expires_in'', JInt (sint (ExpiresIn t))),
              (''token_type'', JString (coerce_utf8 (TokenType t))),
              (''scope'', JString (coerce_utf8 (Scope t)))]"

section \<open>The environment\<close>

text \<open>
  Everything the program asks of the outside world is a field of \<open>env\<close>:
  \<^item> \<open>url_Parse\<close> is the library function of \<open>net/url\<close>; of a parsed URL only
    the fields \<open>Host\<close> and \<open>Path\<close> are read;
  \<^item> \<open>mux_accepts p\<close>: \<open>http.HandleFunc\<close> registers the pattern \<open>p\<close> (it panics on a
    pattern it rejects, such as the empty one);
  \<^item> \<open>listen_ok a\<close>: \<open>net.Listen("tcp", a)\<close> succeeds;
  \<^item> \<open>inbound\<close>: the requests that reach the registered handler, in order of arrival,
    each given by its query parameters in order of appearance;
  \<^item> \<open>http_Do\<close>: the outcome of \<open>http.DefaultClient.Do\<close>;
  \<^item> \<open>decode_SearchResult\<close>: decoding a body into \<open>SearchResult\<close>, as the URIs of
    \<open>Tracks.Items\<close> in order;
  \<^item> \<open>create_ok f\<close>: \<open>os.Create(f)\<close> succeeds; \<open>write_fault f = Some b\<close>: writing to
    \<open>f\<close> fails and leaves the content \<open>b\<close>.
  The files that \<open>os.Open\<close> can open, with their contents, are the state \<open>fs\<close>.
\<close>

record URL =
  Host :: string
  Path :: string

datatype req_body = NoBody | Form "(string \<times> string) list" | JsonBody json

record http_request =
  req_method :: string
  req_url :: string
  req_basic_auth :: "(string \<times> string) option"
  req_headers :: "(string \<times> string) list"
  req_body :: req_body

datatype http_result = NetErr | Resp nat body

type_synonym query = "(string \<times> string) list"

type_synonym fs = "string \<rightharpoonup> body"

record env =
  url_Parse :: "string \<Rightarrow> URL option"
  mux_accepts :: "string \<Rightarrow> bool"
  listen_ok :: "string \<Rightarrow> bool"
  inbound :: "query list"
  http_Do :: "http_request \<Rightarrow> http_result"
  decode_SearchResult :: "body \<Rightarrow> error + string list"
  create_ok :: "string \<Rightarrow> bool"
  write_fault :: "string \<Rightarrow> body option"

text \<open>
  \<open>url.QueryEscape\<close>: letters, digits and \<open>- _ . ~\<close> are kept, a space becomes
  \<open>+\<close>, every other byte becomes \<open>%\<close> and two upper-case hexadecimal digits.
\<close>

definition unreserved :: "char \<Rightarrow> bool" where
  "unreserved c =
     (let n = (of_char c :: nat) in
      (48 \<le> n \<and> n \<le> 57) \<or> (65 \<le> n \<and> n \<le> 90) \<or> (97 \<le> n \<and> n \<le> 122)
      \<or> c = CHR ''-'' \<or> c = CHR ''_'' \<or> c = CHR ''.'' \<or> c = CHR ''~'')"

definition hex_digit :: "nat \<Rightarrow> char" where
  "hex_digit n = ''0123456789ABCDEF'' ! n"

fun url_QueryEscape :: "string \<Rightarrow> string" where
  "url_QueryEscape [] = []"
| "url_QueryEscape (c # cs) =
     (if unreserved c then [c]
      else if c = CHR '' '' then ''+''
      else [CHR ''%'', hex_digit (of_char c div 16), hex_digit (of_char c mod 16)])
     @ url_QueryEscape cs"

text \<open>What the program does to the network, the listener and the browser, in order.\<close>

datatype event =
    HttpDo http_request
  | HandleFunc string
  | Listen string
  | OpenBrowser string
  | Respond nat string
  | SendCode string
  | ScheduleShutdown

text \<open>
  A call returns, ends the process with an exit code, blocks forever or panics.
\<close>

datatype 'a outcome = Returns 'a | Exits nat | Blocks | Panics

section \<open>Package \<open>spotify\<close>\<close>

subsection \<open>\<open>SaveToken\<close> and \<open>LoadToken\<close>\<close>

definition SaveToken :: "env \<Rightarrow> fs \<Rightarrow> string \<Rightarrow> Token \<Rightarrow> fs \<times> error option" where
  "SaveToken e files filename token =
     (if \<not> create_ok e filename then (files, Some CreateError)
      else case write_fault e filename of
             Some b \<Rightarrow> (files(filename \<mapsto> b), Some WriteError)
           | None \<Rightarrow> (files(filename \<mapsto> JSON (encode_Token token)), None))"

definition LoadToken :: "fs \<Rightarrow> string \<Rightarrow> error + Token" where
  "LoadToken files filename =
     (case files filename of
        None \<Rightarrow> Inl OpenError
      | Some b \<Rightarrow> (case decode_body b of Inl err \<Rightarrow> Inl err | Inr token \<Rightarrow> Inr token))"

subsection \<open>\<open>RefreshAccessToken\<close>\<close>

text \<open>
  \<open>http.NewRequest\<close> is called with a constant method and a constant URL, so its
  error branch is not reachable. \<open>url.Values.Encode\<close> lists the form fields sorted by
  key. The status code of the response is not read.
\<close>

definition token_url :: string where
  "token_url = ''https://accounts.spotify.com/api/token''"

definition refresh_request :: "Client \<Rightarrow> string \<Rightarrow> http_request" where
  "refresh_request c refreshToken =
     \<lparr>req_method = ''POST'', req_url = token_url,
      req_basic_auth = Some (ClientID c, ClientSecret c),
      req_headers = [(''Content-Type'', ''application/x-www-form-urlencoded'')],
      req_body = Form [(''grant_type'', ''refresh_token''), (''refresh_token'', refreshToken)]\<rparr>"

definition RefreshAccessToken :: "env \<Rightarrow> Client \<Rightarrow> string \<Rightarrow> event list \<times> (error + Token)" where
  "RefreshAccessToken e c refreshToken =
     (let req = refresh_request c refreshToken in
      ([HttpDo req],
       case http_Do e req of
         NetErr \<Rightarrow> Inl TransportError
       | Resp status b \<Rightarrow>
           (case decode_body b of
              Inl err \<Rightarrow> Inl err
            | Inr token \<Rightarrow>
                Inr (if RefreshToken token = [] then token\<lparr>RefreshToken := refreshToken\<rparr>
                     else token))))"

subsection \<open>\<open>AuthCode\<close>\<close>

definition getHostPort :: "env \<Rightarrow> string \<Rightarrow> string" where
  "getHostPort e redirectURI =
     (case url_Parse e redirectURI of None \<Rightarrow> ''127.0.0.1:8888'' | Some u \<Rightarrow> Host u)"

definition getPath :: "env \<Rightarrow> string \<Rightarrow> string" where
  "getPath e redirectURI =
     (case url_Parse e redirectURI of None \<Rightarrow> ''/callback'' | Some u \<Rightarrow> Path u)"

text \<open>\<open>strings.Join(scopes, " ")\<close>.\<close>

fun join_space :: "string list \<Rightarrow> string" where
  "join_space [] = []"
| "join_space [s] = s"
| "join_space (s # ss) = s @ '' '' @ join_space ss"

definition buildAuthURL :: "string \<Rightarrow> string \<Rightarrow> string list \<Rightarrow> string \<Rightarrow> string" where
  "buildAuthURL clientID redirectURI scopes state =
     (let scope = join_space scopes in
      ''https://accounts.spotify.com/authorize?client_id='' @ url_QueryEscape clientID
      @ ''&response_type=code&redirect_uri='' @ url_QueryEscape redirectURI
      @ ''&state='' @ state
      @ ''&scope='' @ url_QueryEscape scope)"

definition exchange_request :: "string \<Rightarrow> string \<Rightarrow> string \<Rightarrow> string \<Rightarrow> http_request" where
  "exchange_request clientID clientSecret redirectURI code =
     \<lparr>req_method = ''POST'', req_url = token_url,
      req_basic_auth = Some (clientID, clientSecret),
      req_headers = [(''Content-Type'', ''application/x-www-form-urlencoded'')],
      req_body = Form [(''code'', code), (''grant_type'', ''authorization_code''),
                       (''redirect_uri'', redirectURI)]\<rparr>"

text \<open>
  \<open>exchangeCodeForToken\<close> returns \<open>&token, err\<close>; its only caller ignores the token
  when \<open>err\<close> is not nil, so the result is the error or the token.
\<close>

definition exchangeCodeForToken ::
  "env \<Rightarrow> string \<Rightarrow> string \<Rightarrow> string \<Rightarrow> string \<Rightarrow> event list \<times> (error + Token)" where
  "exchangeCodeForToken e clientID clientSecret redirectURI code =
     (let req = exchange_request clientID clientSecret redirectURI code in
      ([HttpDo req],
       case http_Do e req of
         NetErr \<Rightarrow> Inl TransportError
       | Resp status b \<Rightarrow> decode_body b))"

text \<open>\<open>r.URL.Query().Get(key)\<close>: the first value of the key, or the empty string.\<close>

definition query_Get :: "query \<Rightarrow> string \<Rightarrow> string" where
  "query_Get q k = (case map_of q k of None \<Rightarrow> [] | Some v \<Rightarrow> v)"

text \<open>
  The handler registered by \<open>AuthCode\<close>, on one request: the status and body of its
  response, the code it sends on \<open>codeCh\<close> (if any), and whether it starts the
  goroutine that shuts the server down after one second.
\<close>

record handled =
  status :: nat
  response :: string
  sent :: "string option"
  shutdown :: bool

definition handler :: "Client \<Rightarrow> query \<Rightarrow> handled" where
  "handler c r =
     (if query_Get r ''state'' \<noteq> State c then
        \<lparr>status = 400, response = ''state mismatch'' @ [CHR 0x0A], sent = None, shutdown = False\<rparr>
      else
        (let code = query_Get r ''code'' in
         \<lparr>status = 200, response = ''Authorization successful! You can close this tab.'',
          sent = Some code, shutdown = True\<rparr>))"

definition handler_events :: "handled \<Rightarrow> event list" where
  "handler_events h =
     Respond (status h) (response h)
     # (case sent h of None \<Rightarrow> [] | Some code \<Rightarrow> [SendCode code])
     @ (if shutdown h then [ScheduleShutdown] else [])"

text \<open>
  \<open>code := <-codeCh\<close>: the caller waits while the server handles the inbound
  requests; the first request whose handler sends on the channel ends the wait. When
  no request does, the wait never ends (\<open>None\<close>).
\<close>

fun await_code :: "Client \<Rightarrow> query list \<Rightarrow> event list \<times> string option" where
  "await_code c [] = ([], None)"
| "await_code c (r # rs) =
     (let h = handler c r in
      case sent h of
        Some code \<Rightarrow> (handler_events h, Some code)
      | None \<Rightarrow> (let (evs, res) = await_code c rs in (handler_events h @ evs, res)))"

text \<open>
  When \<open>net.Listen\<close> fails the listener goroutine returns and no request is ever
  handled; the caller still opens the browser and waits on the channel.
\<close>

definition AuthCode :: "env \<Rightarrow> Client \<Rightarrow> event list \<times> (error + Token) outcome" where
  "AuthCode e c =
     (let addr = getHostPort e (RedirectURI c);
          pattern = getPath e (RedirectURI c)
      in if \<not> mux_accepts e pattern then ([HandleFunc pattern], Panics)
         else
           (let authURL = buildAuthURL (ClientID c) (RedirectURI c) (Scopes c) (State c);
                setup = [HandleFunc pattern, Listen addr, OpenBrowser authURL]
            in if \<not> listen_ok e addr then (setup, Blocks)
               else
                 (case await_code c (inbound e) of
                    (evs, None) \<Rightarrow> (setup @ evs, Blocks)
                  | (evs, Some code) \<Rightarrow>
                      (let (evs', r) =
                             exchangeCodeForToken e (ClientID c) (ClientSecret c) (RedirectURI c) code
                       in (setup @ evs @ evs', Returns r)))))"

subsection \<open>\<open>SearchTrack\<close> and \<open>PlayTrack\<close>\<close>

definition search_request :: "string \<Rightarrow> string \<Rightarrow> http_request" where
  "search_request accessToken query =
     (let q = url_QueryEscape query;
          url = ''https://api.spotify.com/v1/search?type=track&limit=1&q='' @ q
      in \<lparr>req_method = ''GET'', req_url = url, req_basic_auth = None,
          req_headers = [(''Authorization'', ''Bearer '' @ accessToken)],
          req_body = NoBody\<rparr>)"

definition SearchTrack :: "env \<Rightarrow> string \<Rightarrow> string \<Rightarrow> event list \<times> (error + string)" where
  "SearchTrack e accessToken query =
     (let req = search_request accessToken query in
      ([HttpDo req],
       case http_Do e req of
         NetErr \<Rightarrow> Inl TransportError
       | Resp st b \<Rightarrow>
           if st \<noteq> 200 then Inl (StatusError st)
           else (case decode_SearchResult e b of
                   Inl err \<Rightarrow> Inl err
                 | Inr items \<Rightarrow> (case items of [] \<Rightarrow> Inl NoTracksFound | uri # _ \<Rightarrow> Inr uri))))"

definition play_request :: "string \<Rightarrow> string \<Rightarrow> http_request" where
  "play_request accessToken trackURI =
     \<lparr>req_method = ''PUT'', req_url = ''https://api.spotify.com/v1/me/player/play'',
      req_basic_auth = None,
      req_headers = [(''Authorization'', ''Bearer '' @ accessToken),
                     (''Content-Type'', ''application/json'')],
      req_body = JsonBody (JObject [(''uris'', JArray [JString (coerce_utf8 trackURI)])])\<rparr>"

definition PlayTrack :: "env \<Rightarrow> string \<Rightarrow> string \<Rightarrow> event list \<times> error option" where
  "PlayTrack e accessToken trackURI =
     (let req = play_request accessToken trackURI in
      ([HttpDo req],
       case http_Do e req of
         NetErr \<Rightarrow> Some TransportError
       | Resp st b \<Rightarrow> if st \<noteq> 204 then Some (StatusError st) else None))"

section \<open>Package \<open>main\<close>\<close>

text \<open>
  \<open>Config\<close> as \<open>loadCfg\<close> returns it, and \<open>openai.Result\<close> as \<open>Post\<close> returns it;
  the type \<open>'f\<close> stands for \<open>float64\<close>, whose values are only passed on.
\<close>

record Config =
  cfg_BridgeIP :: string
  cfg_Username :: string
  cfg_DefaultLight :: string
  OpenAIKey :: string
  SpotifyClientID :: string
  SpotifyClientSecret :: string

record 'f Result =
  On :: bool
  Bri :: "64 word"
  XY :: "'f list"
  SongTitle :: string
  Artist :: string

definition tokenFile :: string where
  "tokenFile = ''token.json''"

text \<open>
  Lines 73 to 99 of \<open>main\<close>: the token is loaded, then refreshed or obtained by
  \<open>AuthCode\<close>, then saved; a failure to save is only logged.
\<close>

definition authorize :: "env \<Rightarrow> fs \<Rightarrow> Client \<Rightarrow> event list \<Rightarrow> fs \<times> event list \<times> Token outcome" where
  "authorize e files spoc evs0 =
     (case AuthCode e spoc of
        (evs, Returns (Inl err)) \<Rightarrow> (files, evs0 @ evs, Exits 1)
      | (evs, Returns (Inr token)) \<Rightarrow>
          (fst (SaveToken e files tokenFile token), evs0 @ evs, Returns token)
      | (evs, Exits n) \<Rightarrow> (files, evs0 @ evs, Exits n)
      | (evs, Blocks) \<Rightarrow> (files, evs0 @ evs, Blocks)
      | (evs, Panics) \<Rightarrow> (files, evs0 @ evs, Panics))"

definition session :: "env \<Rightarrow> fs \<Rightarrow> Client \<Rightarrow> fs \<times> event list \<times> Token outcome" where
  "session e files spoc =
     (case LoadToken files tokenFile of
        Inl err \<Rightarrow> authorize e files spoc []
      | Inr token \<Rightarrow>
          (case RefreshAccessToken e spoc (RefreshToken token) of
             (evs, Inl err) \<Rightarrow> authorize e files spoc evs
           | (evs, Inr token') \<Rightarrow>
               (fst (SaveToken e files tokenFile token'), evs, Returns token')))"

text \<open>Lines 100 to 123 of \<open>main\<close>; the result is the exit code.\<close>

definition search_query :: "'f Result \<Rightarrow> string" where
  "search_query result =
     (if SongTitle result \<noteq> [] \<and> Artist result \<noteq> [] then SongTitle result @ '' '' @ Artist result
      else if SongTitle result \<noteq> [] then SongTitle result
      else Artist result)"

definition search_and_play :: "env \<Rightarrow> 'f Result \<Rightarrow> Token \<Rightarrow> event list \<times> nat" where
  "search_and_play e result token =
     (if SongTitle result \<noteq> [] \<or> Artist result \<noteq> [] then
        (let query = search_query result in
         case SearchTrack e (AccessToken token) query of
           (evs, Inl err) \<Rightarrow> (evs, 1)
         | (evs, Inr uri) \<Rightarrow>
             (case PlayTrack e (AccessToken token) uri of
                (evs', Some err) \<Rightarrow> (evs @ evs', 1)
              | (evs', None) \<Rightarrow> (evs @ evs', 0)))
      else ([], 0))"

text \<open>Lines 72 to 123 of \<open>main\<close>, after the light state has been sent.\<close>

definition main_spotify :: "env \<Rightarrow> fs \<Rightarrow> Config \<Rightarrow> 'f Result \<Rightarrow> fs \<times> event list \<times> unit outcome" where
  "main_spotify e files cfg result =
     (let spoc = New (SpotifyClientID cfg) (SpotifyClientSecret cfg)
                   ''http://127.0.0.1:8888/callback''
                   [''user-read-private'', ''user-read-email'',
                    ''user-modify-playback-state'', ''user-read-playback-state'']
                   ''some-random-state''
      in case session e files spoc of
           (files', evs, Returns token) \<Rightarrow>
             (let (evs', code) = search_and_play e result token
              in (files', evs @ evs', Exits code))
         | (files', evs, Exits n) \<Rightarrow> (files', evs, Exits n)
         | (files', evs, Blocks) \<Rightarrow> (files', evs, Blocks)
         | (files', evs, Panics) \<Rightarrow> (files', evs, Panics))"

section \<open>Package \<open>hue\<close>\<close>

text \<open>
  The bridge's side of \<open>SetState\<close>: \<open>url_JoinPath\<close> and \<open>json_Marshal\<close> are the
  library calls that build the URL and the payload, \<open>new_request_ok u\<close> says that
  \<open>http.NewRequest("PUT", u, ...)\<close> succeeds, and \<open>hue_Do n\<close> is the outcome of the
  \<open>n\<close>-th request. \<open>Sleep\<close> counts milliseconds.
\<close>

record hue_Client =
  BridgeIP :: string
  Username :: string
  DefaultLight :: string

definition hue_New :: "string \<Rightarrow> string \<Rightarrow> string \<Rightarrow> hue_Client" where
  "hue_New bridgeIP username defaultLight =
     \<lparr>BridgeIP = bridgeIP, Username = username, DefaultLight = defaultLight\<rparr>"

datatype hue_response = DoError | Response nat string

record 'f hue_env =
  url_JoinPath :: "string \<Rightarrow> string list \<Rightarrow> string option"
  json_Marshal :: "bool \<Rightarrow> 64 word \<Rightarrow> 'f list \<Rightarrow> string option"
  new_request_ok :: "string \<Rightarrow> bool"
  hue_Do :: "nat \<Rightarrow> hue_response"

datatype hue_error =
    URLError
  | MarshalError
  | RequestError nat
  | SendError nat
  | StatusNotOK nat nat string

datatype hue_event = Put string string | Sleep nat

definition maxRetries :: nat where
  "maxRetries = 3"

function SetState_loop ::
  "'f hue_env \<Rightarrow> string \<Rightarrow> string \<Rightarrow> nat \<Rightarrow> hue_error option \<Rightarrow> hue_event list
     \<Rightarrow> hue_error option \<times> hue_event list" where
  "SetState_loop e url jsonPayload attempt lastErr tr =
     (if attempt \<le> maxRetries then
        (if \<not> new_request_ok e url then (Some (RequestError attempt), tr)
         else
           (case hue_Do e attempt of
              DoError \<Rightarrow>
                SetState_loop e url jsonPayload (attempt + 1) (Some (SendError attempt))
                  (tr @ [Put url jsonPayload, Sleep (attempt * 500)])
            | Response st b \<Rightarrow>
                if st \<noteq> 200 then
                  SetState_loop e url jsonPayload (attempt + 1) (Some (StatusNotOK attempt st b))
                    (tr @ [Put url jsonPayload, Sleep (attempt * 500)])
                else (None, tr @ [Put url jsonPayload])))
      else (lastErr, tr))"
  by pat_completeness auto
termination
  by (relation "measure (\<lambda>(e, url, jsonPayload, attempt, lastErr, tr). maxRetries + 1 - attempt)")
     auto

declare SetState_loop.simps [simp del]

definition SetState ::
  "'f hue_env \<Rightarrow> hue_Client \<Rightarrow> bool \<Rightarrow> 64 word \<Rightarrow> 'f list \<Rightarrow> hue_error option \<times> hue_event list" where
  "SetState e c on bri xy =
     (case url_JoinPath e ''http://''
             [BridgeIP c, ''api'', Username c, ''groups'', DefaultLight c, ''action''] of
        None \<Rightarrow> (Some URLError, [])
      | Some url \<Rightarrow>
          (case json_Marshal e on bri xy of
             None \<Rightarrow> (Some MarshalError, [])
           | Some jsonPayload \<Rightarrow> SetState_loop e url jsonPayload 1 None []))"

section \<open>Concrete runs\<close>

text \<open>
  The client that \<open>main\<close> builds for the configuration \<open>spotify_client_id = "id"\<close>,
  \<open>spotify_client_secret = "sec"\<close>, and an environment in which the redirect URI
  parses, the listener binds, no callback arrives, every outbound request fails in
  transport and the token file can be written.
\<close>

definition example_client :: Client where
  "example_client =
     New ''id'' ''sec'' ''http://127.0.0.1:8888/callback''
       [''user-read-private'', ''user-read-email'',
        ''user-modify-playback-state'', ''user-read-playback-state'']
       ''some-random-state''"

definition example_env :: env where
  "example_env =
     \<lparr>url_Parse = (\<lambda>s. if s = ''http://127.0.0.1:8888/callback''
                         then Some \<lparr>Host = ''127.0.0.1:8888'', Path = ''/callback''\<rparr>
                         else None),
      mux_accepts = (\<lambda>p. p \<noteq> [] \<and> hd p = CHR ''/''),
      listen_ok = (\<lambda>a. True),
      inbound = [],
      http_Do = (\<lambda>r. NetErr),
      decode_SearchResult = (\<lambda>b. Inl SyntaxError),
      create_ok = (\<lambda>f. True),
      write_fault = (\<lambda>f. None)\<rparr>"

text \<open>A token file written by an earlier run.\<close>

definition old_token :: Token where
  "old_token =
     \<lparr>AccessToken = ''old-access'', RefreshToken = ''r1'', ExpiresIn = 3600,
      TokenType = ''Bearer'', Scope = ''user-read-private''\<rparr>"

definition stored_files :: fs where
  "stored_files = [tokenFile \<mapsto> JSON (encode_Token old_token)]"

text \<open>
  The provider answers a refresh without a \<open>refresh_token\<close> field.
\<close>

definition refreshed_body :: body where
  "refreshed_body =
     JSON (JObject [(''access_token'', JString ''new-access''),
                    (''token_type'', JString ''Bearer''),
                    (''expires_in'', JInt 3600),
                    (''scope'', JString ''user-read-private'')])"

definition refreshing_env :: env where
  "refreshing_env = example_env\<lparr>http_Do := (\<lambda>r. Resp 200 refreshed_body)\<rparr>"

text \<open>
  The provider rejects the refresh token: status 400 and an OAuth error object.
\<close>

definition denial_body :: body where
  "denial_body =
     JSON (JObject [(''error'', JString ''invalid_grant''),
                    (''error_description'', JString ''Refresh token revoked'')])"

definition denying_env :: env where
  "denying_env = example_env\<lparr>http_Do := (\<lambda>r. Resp 400 denial_body)\<rparr>"

text \<open>A token file whose record has no \<open>access_token\<close>.\<close>

definition hollow_files :: fs where
  "hollow_files = [tokenFile \<mapsto> JSON (JObject [(''refresh_token'', JString ''r1'')])]"

text \<open>Callbacks: one with a foreign \<open>state\<close>, one with the client's own.\<close>

definition forged_callback :: query where
  "forged_callback = [(''code'', ''evil''), (''state'', ''other-state'')]"

definition genuine_callback :: query where
  "genuine_callback = [(''code'', ''abc''), (''state'', ''some-random-state'')]"



text \<open>A token whose access token is the single byte FF, which is not valid UTF-8.\<close>

definition binary_token :: Token where
  "binary_token = old_token\<lparr>AccessToken := [CHR 0xFF]\<rparr>"

text \<open>
  The configuration and the extraction result of a complete run, in which the refresh
  succeeds, the search finds a track and the player accepts it.
\<close>

definition example_cfg :: Config where
  "example_cfg =
     \<lparr>cfg_BridgeIP = ''10.0.0.2'', cfg_Username = ''u'', cfg_DefaultLight = ''1'',
      OpenAIKey = ''k'', SpotifyClientID = ''id'', SpotifyClientSecret = ''sec''\<rparr>"

definition search_body :: body where
  "search_body =
     JSON (JObject [(''tracks'', JObject [(''items'', JArray
       [JObject [(''name'', JString ''Imagine''), (''uri'', JString ''spotify:track:1'')]])])])"

definition playing_env :: env where
  "playing_env =
     example_env\<lparr>http_Do := (\<lambda>r. if req_method r = ''POST'' then Resp 200 refreshed_body
                                  else if req_method r = ''GET'' then Resp 200 search_body
                                  else Resp 204 NotJSON),
                  decode_SearchResult := (\<lambda>b. if b = search_body then Inr [''spotify:track:1'']
                                               else Inl SyntaxError)\<rparr>"

definition imagine :: "nat Result" where
  "imagine = \<lparr>On = True, Bri = 80, XY = [], SongTitle = ''Imagine'', Artist = ''John Lennon''\<rparr>"

text \<open>A bridge that answers every request with status 500.\<close>

definition example_bridge :: hue_Client where
  "example_bridge = hue_New ''10.0.0.2'' ''u'' ''1''"

definition failing_bridge :: "nat hue_env" where
  "failing_bridge =
     \<lparr>url_JoinPath = (\<lambda>base elems. Some ''http://10.0.0.2/api/u/groups/1/action''),
      json_Marshal = (\<lambda>on bri xy. Some ''payload''),
      new_request_ok = (\<lambda>u. True),
      hue_Do = (\<lambda>n. Response 500 ''Internal Server Error'')\<rparr>"

text \<open>The response of the handler to a request with a foreign \<open>state\<close>.\<close>

definition mismatch_response :: event where
  "mismatch_response = Respond 400 (''state mismatch'' @ [CHR 0x0A])"

text \<open>The requests sent and the waits made in a run of \<open>SetState\<close>.\<close>

definition attempts :: "hue_event list \<Rightarrow> nat" where
  "attempts tr = length (filter (\<lambda>ev. case ev of Put u p \<Rightarrow> True | Sleep ms \<Rightarrow> False) tr)"

definition sleeps :: "hue_event list \<Rightarrow> nat list" where
  "sleeps tr = concat (map (\<lambda>ev. case ev of Sleep ms \<Rightarrow> [ms] | Put u p \<Rightarrow> []) tr)"

section \<open>Facts about decoding and encoding\<close>

lemma field_of_key_tags:
  "field_of_key ''access_token'' = Some F_access_token"
  "field_of_key ''refresh_token'' = Some F_refresh_token"
  "field_of_key ''expires_in'' = Some F_expires_in"
  "field_of_key ''token_type'' = Some F_token_type"
  "field_of_key ''scope'' = Some F_scope"
  by (simp_all add: field_of_key_def ascii_lower_def)

lemma field_of_key_error:
  "field_of_key ''error'' = None"
  "field_of_key ''error_description'' = None"
  by (simp_all add: field_of_key_def ascii_lower_def)

lemma coerce_utf8_valid: "valid_utf8 s \<Longrightarrow> coerce_utf8 s = s"
  by (induction s rule: coerce_utf8.induct) (auto simp: Let_def)

lemma store_int_sint: "store_int (JInt (sint (w :: 64 word))) old = Inr w"
  using sint_lt [of w] sint_ge [of w] by (simp add: store_int_def)

lemma decode_encode_Token:
  assumes "valid_utf8 (AccessToken t)" "valid_utf8 (RefreshToken t)"
    "valid_utf8 (TokenType t)" "valid_utf8 (Scope t)"
  shows "decode_Token (encode_Token t) = Inr t"
  using assms
  by (simp add: decode_Token_def encode_Token_def store_field_def field_of_key_tags
      store_string_def store_int_sint zero_Token_def coerce_utf8_valid)

text \<open>A key that does not name \<open>refresh_token\<close> leaves that field as it was.\<close>

lemma store_field_RefreshToken:
  assumes "field_of_key k \<noteq> Some F_refresh_token" and "store_field t k v = Inr t'"
  shows "RefreshToken t' = RefreshToken t"
  using assms
  by (auto simp: store_field_def split: option.splits field.splits sum.splits)

lemma decode_fields_RefreshToken:
  assumes "\<forall>(k, v) \<in> set kvs. field_of_key k \<noteq> Some F_refresh_token"
    and "decode_fields t kvs = Inr t'"
  shows "RefreshToken t' = RefreshToken t"
  using assms
proof (induction kvs arbitrary: t)
  case Nil
  then show ?case by simp
next
  case (Cons kv kvs)
  obtain k v where kv: "kv = (k, v)" by (cases kv)
  from Cons.prems(2) kv obtain t1 where
    t1: "store_field t k v = Inr t1" and rest: "decode_fields t1 kvs = Inr t'"
    by (auto split: sum.splits)
  from Cons.prems(1) kv have "field_of_key k \<noteq> Some F_refresh_token" by simp
  then have "RefreshToken t1 = RefreshToken t" using t1 by (rule store_field_RefreshToken)
  moreover from Cons.prems(1) rest have "RefreshToken t' = RefreshToken t1"
    by (intro Cons.IH) auto
  ultimately show ?case by simp
qed

text \<open>
  A response object without a \<open>refresh_token\<close> key decodes, when it decodes at all,
  to a token whose \<open>RefreshToken\<close> is empty.
\<close>

lemma decode_body_lacking_refresh_token:
  assumes "\<forall>(k, v) \<in> set kvs. field_of_key k \<noteq> Some F_refresh_token"
    and "decode_body (JSON (JObject kvs)) = Inr token"
  shows "RefreshToken token = []"
  using decode_fields_RefreshToken [OF assms(1), of zero_Token token] assms(2)
  by (simp add: decode_body_def decode_Token_def zero_Token_def)

lemma refreshed_body_decodes:
  "decode_body refreshed_body =
     Inr \<lparr>AccessToken = ''new-access'', RefreshToken = [], ExpiresIn = 3600,
          TokenType = ''Bearer'', Scope = ''user-read-private''\<rparr>"
  by (simp add: refreshed_body_def decode_body_def decode_Token_def store_field_def
      field_of_key_tags store_string_def store_int_def zero_Token_def)

lemma denial_body_decodes: "decode_body denial_body = Inr zero_Token"
  by (simp add: denial_body_def decode_body_def decode_Token_def store_field_def
      field_of_key_error)

lemma old_token_valid:
  "valid_utf8 (AccessToken old_token)" "valid_utf8 (RefreshToken old_token)"
  "valid_utf8 (TokenType old_token)" "valid_utf8 (Scope old_token)"
  by (simp_all add: old_token_def)

lemma stored_files_load: "LoadToken stored_files tokenFile = Inr old_token"
  by (simp add: stored_files_def LoadToken_def decode_body_def
      decode_encode_Token [OF old_token_valid])

section \<open>Refreshing the access token\<close>

text \<open>
  C1. Whenever the provider's response to a refresh decodes to a token with an empty
  \<open>refresh_token\<close> (in particular when the response object has no such field, see
  \<open>decode_body_lacking_refresh_token\<close>), \<open>RefreshAccessToken\<close> returns a token whose
  \<open>refresh_token\<close> is the input refresh token, hence not empty when the input was not
  empty; the other fields are those of the response.
\<close>

theorem RefreshAccessToken_backfill:
  assumes "http_Do e (refresh_request c refreshToken) = Resp st b"
    and "decode_body b = Inr token"
    and "RefreshToken token = []"
  shows "\<exists>t. snd (RefreshAccessToken e c refreshToken) = Inr t
           \<and> RefreshToken t = refreshToken
           \<and> (refreshToken \<noteq> [] \<longrightarrow> RefreshToken t \<noteq> [])
           \<and> AccessToken t = AccessToken token \<and> ExpiresIn t = ExpiresIn token
           \<and> TokenType t = TokenType token \<and> Scope t = Scope token"
  using assms by (simp add: RefreshAccessToken_def Let_def)

theorem RefreshAccessToken_backfill_witness:
  "http_Do refreshing_env (refresh_request example_client ''r1'') = Resp 200 refreshed_body
   \<and> decode_body refreshed_body =
       Inr \<lparr>AccessToken = ''new-access'', RefreshToken = [], ExpiresIn = 3600,
            TokenType = ''Bearer'', Scope = ''user-read-private''\<rparr>
   \<and> (\<exists>t. snd (RefreshAccessToken refreshing_env example_client ''r1'') = Inr t
          \<and> RefreshToken t = ''r1'' \<and> RefreshToken t \<noteq> []
          \<and> AccessToken t = ''new-access'')"
proof -
  have h1: "http_Do refreshing_env (refresh_request example_client ''r1'')
              = Resp 200 refreshed_body"
    by (simp add: refreshing_env_def)
  have h3: "RefreshToken \<lparr>AccessToken = ''new-access'', RefreshToken = [], ExpiresIn = 3600,
              TokenType = ''Bearer'', Scope = ''user-read-private''\<rparr> = []"
    by simp
  from RefreshAccessToken_backfill [OF h1 refreshed_body_decodes h3] h1 refreshed_body_decodes
  show ?thesis by auto
qed

text \<open>
  \<open>RefreshAccessToken\<close> returns an error exactly when the request fails in
  transport or the body of the response does not decode.
\<close>

lemma RefreshAccessToken_error_iff:
  "(\<exists>err. snd (RefreshAccessToken e c refreshToken) = Inl err)
   \<longleftrightarrow> (http_Do e (refresh_request c refreshToken) = NetErr
        \<or> (\<exists>st b err. http_Do e (refresh_request c refreshToken) = Resp st b
              \<and> decode_body b = Inl err))"
  by (auto simp: RefreshAccessToken_def Let_def split: http_result.splits sum.splits)

text \<open>
  C2. The provider rejects the refresh token \<open>r1\<close> with status 400 and the body
  \<open>{"error":"invalid_grant","error_description":"Refresh token revoked"}\<close>. The body
  is well-formed JSON whose keys name no field of \<open>Token\<close>, and the status code is not
  read, so \<open>RefreshAccessToken\<close> returns no error but a token with an empty access
  token and the old refresh token. The session flow therefore never calls \<open>AuthCode\<close>:
  its only event is the refresh request, and it overwrites the token file with the
  empty-access token.
\<close>

theorem refresh_denial_not_reported:
  "snd (RefreshAccessToken denying_env example_client ''r1'') =
     Inr \<lparr>AccessToken = [], RefreshToken = ''r1'', ExpiresIn = 0, TokenType = [], Scope = []\<rparr>
   \<and> fst (snd (session denying_env stored_files example_client)) =
       [HttpDo (refresh_request example_client ''r1'')]
   \<and> snd (snd (session denying_env stored_files example_client)) =
       Returns \<lparr>AccessToken = [], RefreshToken = ''r1'', ExpiresIn = 0, TokenType = [], Scope = []\<rparr>
   \<and> fst (session denying_env stored_files example_client) tokenFile =
       Some (JSON (encode_Token
         \<lparr>AccessToken = [], RefreshToken = ''r1'', ExpiresIn = 0, TokenType = [], Scope = []\<rparr>))"
proof -
  have r: "RefreshAccessToken denying_env example_client ''r1'' =
     ([HttpDo (refresh_request example_client ''r1'')],
      Inr \<lparr>AccessToken = [], RefreshToken = ''r1'', ExpiresIn = 0, TokenType = [], Scope = []\<rparr>)"
    by (simp add: RefreshAccessToken_def Let_def denying_env_def denial_body_decodes zero_Token_def)
  have s: "session denying_env stored_files example_client =
     (fst (SaveToken denying_env stored_files tokenFile
        \<lparr>AccessToken = [], RefreshToken = ''r1'', ExpiresIn = 0, TokenType = [], Scope = []\<rparr>),
      [HttpDo (refresh_request example_client ''r1'')],
      Returns \<lparr>AccessToken = [], RefreshToken = ''r1'', ExpiresIn = 0, TokenType = [], Scope = []\<rparr>)"
    by (simp add: session_def stored_files_load old_token_def r)
  show ?thesis
    by (simp add: r s) (simp add: SaveToken_def denying_env_def example_env_def)
qed

section \<open>Persisting the token\<close>

text \<open>
  C7 as stated fails: the token whose access token is the byte FF is saved without
  error, but the encoder replaces the byte by U+FFFD, so loading the file yields a
  different access token.
\<close>

theorem SaveToken_LoadToken_binary_counterexample:
  "snd (SaveToken example_env Map.empty tokenFile binary_token) = None
   \<and> LoadToken (fst (SaveToken example_env Map.empty tokenFile binary_token)) tokenFile
       = Inr (binary_token\<lparr>AccessToken := [CHR 0xEF, CHR 0xBF, CHR 0xBD]\<rparr>)
   \<and> LoadToken (fst (SaveToken example_env Map.empty tokenFile binary_token)) tokenFile
       \<noteq> Inr binary_token"
  by (simp add: SaveToken_def example_env_def LoadToken_def decode_body_def decode_Token_def
      encode_Token_def store_field_def field_of_key_tags store_string_def store_int_def
      zero_Token_def binary_token_def old_token_def replacement_char_def cont_def in_range_def)

text \<open>
  C7, amended. For every token whose four string fields are valid UTF-8: when
  \<open>SaveToken\<close> returns no error, \<open>LoadToken\<close> on the same file returns that token,
  with the same \<open>access_token\<close>, \<open>refresh_token\<close>, \<open>expires_in\<close>, \<open>token_type\<close>
  and \<open>scope\<close>.
\<close>

theorem SaveToken_LoadToken_roundtrip:
  assumes "SaveToken e files filename token = (files', None)"
    and "valid_utf8 (AccessToken token)" "valid_utf8 (RefreshToken token)"
    "valid_utf8 (TokenType token)" "valid_utf8 (Scope token)"
  shows "LoadToken files' filename = Inr token"
proof -
  from assms(1) have "files' = files(filename \<mapsto> JSON (encode_Token token))"
    by (auto simp: SaveToken_def split: if_splits option.splits)
  then show ?thesis
    using decode_encode_Token [OF assms(2-5)]
    by (simp add: LoadToken_def decode_body_def)
qed

theorem SaveToken_LoadToken_roundtrip_witness:
  "SaveToken example_env Map.empty tokenFile old_token
     = ([tokenFile \<mapsto> JSON (encode_Token old_token)], None)
   \<and> valid_utf8 (AccessToken old_token) \<and> valid_utf8 (RefreshToken old_token)
   \<and> valid_utf8 (TokenType old_token) \<and> valid_utf8 (Scope old_token)
   \<and> LoadToken [tokenFile \<mapsto> JSON (encode_Token old_token)] tokenFile = Inr old_token"
proof -
  have h: "SaveToken example_env Map.empty tokenFile old_token
             = ([tokenFile \<mapsto> JSON (encode_Token old_token)], None)"
    by (simp add: SaveToken_def example_env_def)
  from SaveToken_LoadToken_roundtrip [OF h old_token_valid] h old_token_valid
  show ?thesis by blast
qed

lemma hollow_files_load:
  "LoadToken hollow_files tokenFile =
     Inr \<lparr>AccessToken = [], RefreshToken = ''r1'', ExpiresIn = 0, TokenType = [], Scope = []\<rparr>"
  by (simp add: hollow_files_def LoadToken_def decode_body_def decode_Token_def store_field_def
      field_of_key_tags store_string_def zero_Token_def)

text \<open>
  C3 as stated fails: the record \<open>{"refresh_token":"r1"}\<close> decodes to a token with
  an empty access token; \<open>LoadToken\<close> returns it, and the session flow uses it for
  the refresh.
\<close>

theorem LoadToken_hollow_counterexample:
  "LoadToken hollow_files tokenFile =
     Inr \<lparr>AccessToken = [], RefreshToken = ''r1'', ExpiresIn = 0, TokenType = [], Scope = []\<rparr>
   \<and> fst (snd (session refreshing_env hollow_files example_client)) =
       [HttpDo (refresh_request example_client ''r1'')]"
  by (simp add: hollow_files_load session_def RefreshAccessToken_def Let_def
      refreshing_env_def refreshed_body_decodes)

section \<open>Acquiring a session\<close>

lemma session_events_loaded:
  assumes "LoadToken files tokenFile = Inr token"
  shows "\<exists>rest. fst (snd (session e files spoc))
           = HttpDo (refresh_request spoc (RefreshToken token)) # rest"
  using assms
  by (auto simp: session_def RefreshAccessToken_def authorize_def Let_def
      split: prod.splits sum.splits outcome.splits http_result.splits)

lemma handler_events_not_HttpDo: "HttpDo r \<notin> set (handler_events h)"
  by (auto simp: handler_events_def split: option.splits)

lemma await_code_not_HttpDo: "HttpDo r \<notin> set (fst (await_code c rs))"
  by (induction rs) (auto simp: Let_def handler_events_not_HttpDo split: option.splits prod.splits)

lemma exchange_is_not_refresh:
  "exchange_request i s u code \<noteq> refresh_request c' rt"
  "refresh_request c' rt \<noteq> exchange_request i s u code"
  by (simp_all add: exchange_request_def refresh_request_def)

lemma AuthCode_no_refresh: "HttpDo (refresh_request c' rt) \<notin> set (fst (AuthCode e c))"
  using await_code_not_HttpDo [of "refresh_request c' rt" c "inbound e"]
  by (auto simp: AuthCode_def Let_def exchangeCodeForToken_def exchange_is_not_refresh
      split: prod.splits option.splits)

lemma authorize_events: "fst (snd (authorize e files spoc evs0)) = evs0 @ fst (AuthCode e spoc)"
  by (auto simp: authorize_def split: prod.splits outcome.splits sum.splits)

lemma session_events_not_loaded:
  assumes "LoadToken files tokenFile = Inl err"
  shows "fst (snd (session e files spoc)) = fst (AuthCode e spoc)"
  using assms by (simp add: session_def authorize_events)

lemma AuthCode_first_event: "\<exists>rest. fst (AuthCode e c) = HandleFunc (getPath e (RedirectURI c)) # rest"
  by (auto simp: AuthCode_def Let_def split: prod.splits option.splits)

text \<open>
  When the refresh returns an error, the flow continues with \<open>AuthCode\<close>, and a token
  obtained there replaces the content of the token file.
\<close>

lemma session_refresh_error_falls_back:
  assumes "LoadToken files tokenFile = Inr token"
    and "snd (RefreshAccessToken e spoc (RefreshToken token)) = Inl err"
  shows "fst (snd (session e files spoc))
           = HttpDo (refresh_request spoc (RefreshToken token)) # fst (AuthCode e spoc)"
    and "snd (AuthCode e spoc) = Returns (Inr token') \<Longrightarrow>
           snd (snd (session e files spoc)) = Returns token'
           \<and> fst (session e files spoc) = fst (SaveToken e files tokenFile token')"
  using assms
  by (auto simp: session_def RefreshAccessToken_def authorize_def Let_def
      split: prod.splits sum.splits outcome.splits http_result.splits)

text \<open>
  C3, amended. \<open>LoadToken\<close> does not inspect the token: every record that decodes
  is returned as decoded, also with an empty access token, and the session flow uses
  its refresh token for the refresh. \<open>LoadToken\<close> fails exactly when the file cannot
  be opened or its content does not decode.
\<close>

theorem LoadToken_no_validation:
  "(files filename = Some b \<and> decode_body b = Inr token
      \<longrightarrow> LoadToken files filename = Inr token)
   \<and> ((\<exists>err. LoadToken files filename = Inl err)
        \<longleftrightarrow> (files filename = None
             \<or> (\<exists>b err. files filename = Some b \<and> decode_body b = Inl err)))
   \<and> (LoadToken files tokenFile = Inr token
        \<longrightarrow> (\<exists>rest. fst (snd (session e files spoc))
               = HttpDo (refresh_request spoc (RefreshToken token)) # rest))"
proof (intro conjI impI)
  assume "files filename = Some b \<and> decode_body b = Inr token"
  then show "LoadToken files filename = Inr token" by (simp add: LoadToken_def)
next
  show "(\<exists>err. LoadToken files filename = Inl err)
        \<longleftrightarrow> (files filename = None
             \<or> (\<exists>b err. files filename = Some b \<and> decode_body b = Inl err))"
    by (auto simp: LoadToken_def split: option.splits sum.splits)
next
  assume "LoadToken files tokenFile = Inr token"
  then show "\<exists>rest. fst (snd (session e files spoc))
               = HttpDo (refresh_request spoc (RefreshToken token)) # rest"
    by (rule session_events_loaded)
qed

theorem LoadToken_no_validation_witness:
  "hollow_files tokenFile = Some (JSON (JObject [(''refresh_token'', JString ''r1'')]))
   \<and> decode_body (JSON (JObject [(''refresh_token'', JString ''r1'')]))
       = Inr (zero_Token\<lparr>RefreshToken := ''r1''\<rparr>)
   \<and> LoadToken hollow_files tokenFile = Inr (zero_Token\<lparr>RefreshToken := ''r1''\<rparr>)
   \<and> AccessToken (zero_Token\<lparr>RefreshToken := ''r1''\<rparr>) = []
   \<and> (\<exists>rest. fst (snd (session refreshing_env hollow_files example_client))
               = HttpDo (refresh_request example_client ''r1'') # rest)"
proof -
  have h1: "hollow_files tokenFile = Some (JSON (JObject [(''refresh_token'', JString ''r1'')]))"
    by (simp add: hollow_files_def)
  have h2: "decode_body (JSON (JObject [(''refresh_token'', JString ''r1'')]))
       = Inr (zero_Token\<lparr>RefreshToken := ''r1''\<rparr>)"
    by (simp add: decode_body_def decode_Token_def store_field_def field_of_key_tags
        store_string_def)
  note t = LoadToken_no_validation [of hollow_files tokenFile
      "JSON (JObject [(''refresh_token'', JString ''r1'')])" "zero_Token\<lparr>RefreshToken := ''r1''\<rparr>"
      refreshing_env example_client]
  from t h1 h2 have l: "LoadToken hollow_files tokenFile = Inr (zero_Token\<lparr>RefreshToken := ''r1''\<rparr>)"
    by blast
  with t have "\<exists>rest. fst (snd (session refreshing_env hollow_files example_client))
               = HttpDo (refresh_request example_client (RefreshToken (zero_Token\<lparr>RefreshToken := ''r1''\<rparr>))) # rest"
    by blast
  then have "\<exists>rest. fst (snd (session refreshing_env hollow_files example_client))
               = HttpDo (refresh_request example_client ''r1'') # rest"
    by simp
  moreover have "AccessToken (zero_Token\<lparr>RefreshToken := ''r1''\<rparr>) = []"
    by (simp add: zero_Token_def)
  ultimately show ?thesis using h1 h2 l by blast
qed

text \<open>
  C6. When the persisted token loads, the first thing the session flow does is the
  refresh request with the loaded refresh token, so it precedes every registration
  of a handler, every listener and every browser (the refresh token need not even be
  non-empty). When loading fails, the flow is that of \<open>AuthCode\<close> alone: it starts
  with the registration of the callback handler and contains no refresh request.
\<close>

theorem session_refresh_before_authorization:
  "(LoadToken files tokenFile = Inr token
      \<longrightarrow> (\<exists>rest. fst (snd (session e files spoc))
             = HttpDo (refresh_request spoc (RefreshToken token)) # rest))
   \<and> ((\<exists>err. LoadToken files tokenFile = Inl err)
      \<longrightarrow> fst (snd (session e files spoc)) = fst (AuthCode e spoc)
          \<and> (\<exists>rest. fst (snd (session e files spoc))
                = HandleFunc (getPath e (RedirectURI spoc)) # rest)
          \<and> (\<forall>c' rt. HttpDo (refresh_request c' rt) \<notin> set (fst (snd (session e files spoc)))))"
proof (intro conjI impI)
  assume "LoadToken files tokenFile = Inr token"
  then show "\<exists>rest. fst (snd (session e files spoc))
             = HttpDo (refresh_request spoc (RefreshToken token)) # rest"
    by (rule session_events_loaded)
next
  assume "\<exists>err. LoadToken files tokenFile = Inl err"
  then obtain err where "LoadToken files tokenFile = Inl err" ..
  then have eq: "fst (snd (session e files spoc)) = fst (AuthCode e spoc)"
    by (rule session_events_not_loaded)
  then show "fst (snd (session e files spoc)) = fst (AuthCode e spoc)" .
  from eq show "\<exists>rest. fst (snd (session e files spoc))
                = HandleFunc (getPath e (RedirectURI spoc)) # rest"
    using AuthCode_first_event [of e spoc] by simp
  from eq show "\<forall>c' rt. HttpDo (refresh_request c' rt) \<notin> set (fst (snd (session e files spoc)))"
    by (simp add: AuthCode_no_refresh)
qed

theorem session_refresh_before_authorization_witness:
  "LoadToken stored_files tokenFile = Inr old_token
   \<and> RefreshToken old_token = ''r1''
   \<and> (\<exists>rest. fst (snd (session refreshing_env stored_files example_client))
         = HttpDo (refresh_request example_client ''r1'') # rest)
   \<and> LoadToken Map.empty tokenFile = Inl OpenError
   \<and> fst (snd (session example_env Map.empty example_client))
       = fst (AuthCode example_env example_client)
   \<and> HttpDo (refresh_request example_client ''r1'')
         \<notin> set (fst (snd (session example_env Map.empty example_client)))"
proof -
  have r: "RefreshToken old_token = ''r1''"
    by (simp add: old_token_def)
  have l: "LoadToken Map.empty tokenFile = Inl OpenError"
    by (simp add: LoadToken_def)
  from session_refresh_before_authorization
         [of stored_files old_token refreshing_env example_client] stored_files_load r
  have 1: "\<exists>rest. fst (snd (session refreshing_env stored_files example_client))
         = HttpDo (refresh_request example_client ''r1'') # rest"
    by simp
  from session_refresh_before_authorization
         [of Map.empty old_token example_env example_client] l
  have 2: "fst (snd (session example_env Map.empty example_client))
             = fst (AuthCode example_env example_client)
           \<and> (\<forall>c' rt. HttpDo (refresh_request c' rt)
                \<notin> set (fst (snd (session example_env Map.empty example_client))))"
    by blast
  from stored_files_load r 1 l 2 show ?thesis by blast
qed

section \<open>Interactive authorization\<close>

lemma handler_mismatch:
  assumes "query_Get r ''state'' \<noteq> State c"
  shows "handler c r = \<lparr>status = 400, response = ''state mismatch'' @ [CHR 0x0A], sent = None, shutdown = False\<rparr>"
  using assms by (simp add: handler_def)

lemma await_code_mismatch:
  assumes "query_Get r ''state'' \<noteq> State c"
  shows "await_code c (r # rs) = (mismatch_response # fst (await_code c rs), snd (await_code c rs))"
  using assms
  by (simp add: handler_mismatch handler_events_def mismatch_response_def split: prod.splits)

lemma await_code_mismatches:
  assumes "\<forall>r \<in> set rs. query_Get r ''state'' \<noteq> State c"
  shows "await_code c (rs @ rest)
           = (map (\<lambda>r. mismatch_response) rs @ fst (await_code c rest), snd (await_code c rest))"
  using assms
proof (induction rs)
  case Nil
  then show ?case by simp
next
  case (Cons r rs)
  then have "query_Get r ''state'' \<noteq> State c" by simp
  from await_code_mismatch [OF this, of "rs @ rest"] Cons show ?case by simp
qed

lemma AuthCode_unresolved:
  assumes "snd (await_code c (inbound e)) = None"
  shows "snd (AuthCode e c) \<noteq> Returns x"
  using assms
  by (auto simp: AuthCode_def Let_def split: prod.splits option.splits)

text \<open>
  C4. A callback whose \<open>state\<close> differs from the client's is answered with status
  400; its handler sends nothing on the code channel and does not schedule the
  shutdown of the listener. Such requests leave the wait as it was: after any number
  of them the wait is unresolved, and what follows them decides alone whether and
  with which code it ends. When no other request arrives, \<open>AuthCode\<close> does not
  return.
\<close>

theorem state_mismatch_rejected:
  assumes "\<forall>r \<in> set rs. query_Get r ''state'' \<noteq> State c"
  shows "(\<forall>r \<in> set rs. status (handler c r) = 400 \<and> sent (handler c r) = None
            \<and> \<not> shutdown (handler c r))
         \<and> await_code c (rs @ rest)
             = (map (\<lambda>r. mismatch_response) rs @ fst (await_code c rest), snd (await_code c rest))
         \<and> snd (await_code c rs) = None
         \<and> (inbound e = rs \<longrightarrow> (\<forall>x. snd (AuthCode e c) \<noteq> Returns x))"
proof (intro conjI impI allI)
  show "\<forall>r \<in> set rs. status (handler c r) = 400 \<and> sent (handler c r) = None
            \<and> \<not> shutdown (handler c r)"
    using assms by (simp add: handler_mismatch)
  show "await_code c (rs @ rest)
             = (map (\<lambda>r. mismatch_response) rs @ fst (await_code c rest), snd (await_code c rest))"
    using assms by (rule await_code_mismatches)
  from await_code_mismatches [OF assms, of "[]"]
  show none: "snd (await_code c rs) = None" by simp
  fix x
  assume "inbound e = rs"
  with none show "snd (AuthCode e c) \<noteq> Returns x"
    by (simp add: AuthCode_unresolved)
qed

theorem state_mismatch_rejected_witness:
  "query_Get forged_callback ''state'' \<noteq> State example_client
   \<and> status (handler example_client forged_callback) = 400
   \<and> sent (handler example_client forged_callback) = None
   \<and> \<not> shutdown (handler example_client forged_callback)
   \<and> snd (await_code example_client [forged_callback]) = None
   \<and> await_code example_client [forged_callback, genuine_callback]
       = ([mismatch_response, Respond 200 ''Authorization successful! You can close this tab.'',
           SendCode ''abc'', ScheduleShutdown], Some ''abc'')
   \<and> inbound (example_env\<lparr>inbound := [forged_callback]\<rparr>) = [forged_callback]
   \<and> snd (AuthCode (example_env\<lparr>inbound := [forged_callback]\<rparr>) example_client) = Blocks"
proof -
  have h: "\<forall>r \<in> set [forged_callback]. query_Get r ''state'' \<noteq> State example_client"
    by (simp add: forged_callback_def query_Get_def example_client_def New_def)
  have g: "await_code example_client [genuine_callback]
       = ([Respond 200 ''Authorization successful! You can close this tab.'',
           SendCode ''abc'', ScheduleShutdown], Some ''abc'')"
    by (simp add: genuine_callback_def query_Get_def example_client_def New_def handler_def
        handler_events_def)
  have i: "inbound (example_env\<lparr>inbound := [forged_callback]\<rparr>) = [forged_callback]"
    by simp
  have b: "snd (AuthCode (example_env\<lparr>inbound := [forged_callback]\<rparr>) example_client) = Blocks"
    using state_mismatch_rejected [OF h, of "[]" "example_env\<lparr>inbound := [forged_callback]\<rparr>"]
    by (simp add: AuthCode_def Let_def example_env_def example_client_def New_def
        getPath_def getHostPort_def split: prod.splits)
  from state_mismatch_rejected [OF h, of "[genuine_callback]"] h g i b
  show ?thesis by simp
qed







section \<open>Setting the light state\<close>

lemma SetState_loop_done:
  "maxRetries < attempt \<Longrightarrow> SetState_loop e url p attempt lastErr tr = (lastErr, tr)"
  by (subst SetState_loop.simps) simp

lemma SetState_loop_not_OK:
  assumes "attempt \<le> maxRetries" and "new_request_ok e url"
    and "hue_Do e attempt = Response st b" and "st \<noteq> 200"
  shows "SetState_loop e url p attempt lastErr tr
          = SetState_loop e url p (Suc attempt) (Some (StatusNotOK attempt st b))
              (tr @ [Put url p, Sleep (attempt * 500)])"
  using assms by (subst SetState_loop.simps) simp

lemma SetState_loop_three_failures:
  assumes "new_request_ok e url"
    and "hue_Do e (Suc 0) = Response s1 b1" "s1 \<noteq> 200"
    and "hue_Do e (Suc (Suc 0)) = Response s2 b2" "s2 \<noteq> 200"
    and "hue_Do e (Suc (Suc (Suc 0))) = Response s3 b3" "s3 \<noteq> 200"
  shows "SetState_loop e url p (Suc 0) None []
          = (Some (StatusNotOK (Suc (Suc (Suc 0))) s3 b3),
             [Put url p, Sleep 500, Put url p, Sleep 1000, Put url p, Sleep 1500])"
proof -
  have "SetState_loop e url p (Suc 0) None []
          = SetState_loop e url p (Suc (Suc 0)) (Some (StatusNotOK (Suc 0) s1 b1))
              [Put url p, Sleep 500]"
    using SetState_loop_not_OK [OF _ assms(1) assms(2) assms(3), of p None "[]"]
    by (simp add: maxRetries_def)
  also have "\<dots> = SetState_loop e url p (Suc (Suc (Suc 0)))
                     (Some (StatusNotOK (Suc (Suc 0)) s2 b2))
                     [Put url p, Sleep 500, Put url p, Sleep 1000]"
    using SetState_loop_not_OK [OF _ assms(1) assms(4) assms(5), of p]
    by (simp add: maxRetries_def)
  also have "\<dots> = SetState_loop e url p (Suc (Suc (Suc (Suc 0))))
                     (Some (StatusNotOK (Suc (Suc (Suc 0))) s3 b3))
                     [Put url p, Sleep 500, Put url p, Sleep 1000, Put url p, Sleep 1500]"
    using SetState_loop_not_OK [OF _ assms(1) assms(6) assms(7), of p]
    by (simp add: maxRetries_def)
  also have "\<dots> = (Some (StatusNotOK (Suc (Suc (Suc 0))) s3 b3),
                     [Put url p, Sleep 500, Put url p, Sleep 1000, Put url p, Sleep 1500])"
    by (rule SetState_loop_done) (simp add: maxRetries_def)
  finally show ?thesis .
qed

lemma failing_bridge_run:
  "SetState failing_bridge example_bridge True 80 [] =
     (Some (StatusNotOK 3 500 ''Internal Server Error''),
      [Put ''http://10.0.0.2/api/u/groups/1/action'' ''payload'', Sleep 500,
       Put ''http://10.0.0.2/api/u/groups/1/action'' ''payload'', Sleep 1000,
       Put ''http://10.0.0.2/api/u/groups/1/action'' ''payload'', Sleep 1500])"
proof -
  have "SetState failing_bridge example_bridge True 80 [] =
          SetState_loop failing_bridge ''http://10.0.0.2/api/u/groups/1/action'' ''payload''
            (Suc 0) None []"
    by (simp add: SetState_def failing_bridge_def)
  also have "\<dots> = (Some (StatusNotOK (Suc (Suc (Suc 0))) 500 ''Internal Server Error''),
      [Put ''http://10.0.0.2/api/u/groups/1/action'' ''payload'', Sleep 500,
       Put ''http://10.0.0.2/api/u/groups/1/action'' ''payload'', Sleep 1000,
       Put ''http://10.0.0.2/api/u/groups/1/action'' ''payload'', Sleep 1500])"
    by (rule SetState_loop_three_failures
          [where ?s1.0 = 500 and ?b1.0 = "''Internal Server Error''"
             and ?s2.0 = 500 and ?b2.0 = "''Internal Server Error''"])
       (simp_all add: failing_bridge_def)
  finally show ?thesis by (simp add: numeral_3_eq_3)
qed

text \<open>
  C5 as stated fails: against a bridge that answers 500 every time, three requests
  are sent and the waits are 500, 1000 and 1500 ms; the last thing \<open>SetState\<close> does
  before it returns the error is the wait of 1500 ms after the third attempt.
\<close>

theorem SetState_final_backoff_counterexample:
  "attempts (snd (SetState failing_bridge example_bridge True 80 [])) = 3
   \<and> sleeps (snd (SetState failing_bridge example_bridge True 80 [])) = [500, 1000, 1500]
   \<and> last (snd (SetState failing_bridge example_bridge True 80 [])) = Sleep 1500
   \<and> sleeps (snd (SetState failing_bridge example_bridge True 80 [])) \<noteq> [500, 1000]"
  by (simp add: failing_bridge_run sleeps_def attempts_def)

text \<open>
  C5, amended. When the URL and the payload can be built and every request is
  answered with a status other than 200, \<open>SetState\<close> sends exactly three requests
  and returns the error of the third; it waits attempt times 500 ms after each
  failed attempt, the third included (500, 1000 and 1500 ms).
\<close>

theorem SetState_all_attempts_fail:
  assumes "url_JoinPath e ''http://''
             [BridgeIP c, ''api'', Username c, ''groups'', DefaultLight c, ''action''] = Some url"
    and "json_Marshal e on bri xy = Some p"
    and "new_request_ok e url"
    and "\<forall>n \<in> {1, 2, 3}. \<exists>st b. hue_Do e n = Response st b \<and> st \<noteq> 200"
  shows "\<exists>st b. hue_Do e 3 = Response st b
           \<and> SetState e c on bri xy =
               (Some (StatusNotOK 3 st b),
                [Put url p, Sleep 500, Put url p, Sleep 1000, Put url p, Sleep 1500])"
proof -
  from assms(4) obtain s1 b1 s2 b2 s3 b3 where
    r1: "hue_Do e (Suc 0) = Response s1 b1" "s1 \<noteq> 200" and
    r2: "hue_Do e (Suc (Suc 0)) = Response s2 b2" "s2 \<noteq> 200" and
    r3: "hue_Do e (Suc (Suc (Suc 0))) = Response s3 b3" "s3 \<noteq> 200"
    by (auto simp: numeral_2_eq_2 numeral_3_eq_3)
  have "SetState e c on bri xy = SetState_loop e url p (Suc 0) None []"
    using assms(1,2) by (simp add: SetState_def)
  with SetState_loop_three_failures [OF assms(3) r1 r2 r3, of p] r3
  show ?thesis by (simp add: numeral_3_eq_3)
qed

theorem SetState_all_attempts_fail_witness:
  "hue_Do failing_bridge 1 = Response 500 ''Internal Server Error''
   \<and> hue_Do failing_bridge 2 = Response 500 ''Internal Server Error''
   \<and> hue_Do failing_bridge 3 = Response 500 ''Internal Server Error''
   \<and> SetState failing_bridge example_bridge True 80 [] =
     (Some (StatusNotOK 3 500 ''Internal Server Error''),
      [Put ''http://10.0.0.2/api/u/groups/1/action'' ''payload'', Sleep 500,
       Put ''http://10.0.0.2/api/u/groups/1/action'' ''payload'', Sleep 1000,
       Put ''http://10.0.0.2/api/u/groups/1/action'' ''payload'', Sleep 1500])"
proof -
  have h1: "url_JoinPath failing_bridge ''http://''
             [BridgeIP example_bridge, ''api'', Username example_bridge, ''groups'',
              DefaultLight example_bridge, ''action'']
            = Some ''http://10.0.0.2/api/u/groups/1/action''"
    by (simp add: failing_bridge_def)
  have h2: "json_Marshal failing_bridge True 80 [] = Some ''payload''"
    by (simp add: failing_bridge_def)
  have h3: "new_request_ok failing_bridge ''http://10.0.0.2/api/u/groups/1/action''"
    by (simp add: failing_bridge_def)
  have h4: "\<forall>n \<in> {1, 2, 3}. \<exists>st b. hue_Do failing_bridge n = Response st b \<and> st \<noteq> 200"
    by (simp add: failing_bridge_def)
  have d: "hue_Do failing_bridge 3 = Response 500 ''Internal Server Error''"
    by (simp add: failing_bridge_def)
  from SetState_all_attempts_fail [OF h1 h2 h3 h4] d
  show ?thesis by (auto simp: failing_bridge_def)
qed

section \<open>Searching and playing\<close>

lemma search_and_play_events:
  assumes "SongTitle result \<noteq> [] \<or> Artist result \<noteq> []"
  shows "\<exists>rest. fst (search_and_play e result token)
            = HttpDo (search_request (AccessToken token) (search_query result)) # rest
          \<and> (rest = [] \<or> (\<exists>uri. rest = [HttpDo (play_request (AccessToken token) uri)]))"
  using assms
  by (auto simp: search_and_play_def SearchTrack_def PlayTrack_def Let_def
      split: prod.splits sum.splits option.splits http_result.splits list.splits)

lemma search_and_play_found:
  assumes "SongTitle result \<noteq> [] \<or> Artist result \<noteq> []"
    and "snd (SearchTrack e (AccessToken token) (search_query result)) = Inr uri"
  shows "fst (search_and_play e result token)
            = [HttpDo (search_request (AccessToken token) (search_query result)),
               HttpDo (play_request (AccessToken token) uri)]"
  using assms
  by (auto simp: search_and_play_def SearchTrack_def PlayTrack_def Let_def
      split: prod.splits sum.splits option.splits http_result.splits list.splits)

text \<open>
  C10. With an empty title and an empty artist nothing is requested. Otherwise the
  first request is the search, and its query is the title, a space and the artist
  when both are non-empty, the title alone or the artist alone when only that one is
  non-empty; the only other request is the play request, which follows exactly when
  the search returned a URI.
\<close>

theorem search_and_play_guard_and_query:
  "(SongTitle result = [] \<and> Artist result = [] \<longrightarrow> search_and_play e result token = ([], 0))
   \<and> (SongTitle result \<noteq> [] \<or> Artist result \<noteq> [] \<longrightarrow>
        (\<exists>rest. fst (search_and_play e result token)
            = HttpDo (search_request (AccessToken token) (search_query result)) # rest
          \<and> (rest = [] \<or> (\<exists>uri. rest = [HttpDo (play_request (AccessToken token) uri)])))
        \<and> (\<forall>uri. snd (SearchTrack e (AccessToken token) (search_query result)) = Inr uri \<longrightarrow>
              fst (search_and_play e result token)
                = [HttpDo (search_request (AccessToken token) (search_query result)),
                   HttpDo (play_request (AccessToken token) uri)]))
   \<and> (SongTitle result \<noteq> [] \<and> Artist result \<noteq> [] \<longrightarrow>
        search_query result = SongTitle result @ '' '' @ Artist result)
   \<and> (SongTitle result \<noteq> [] \<and> Artist result = [] \<longrightarrow> search_query result = SongTitle result)
   \<and> (SongTitle result = [] \<and> Artist result \<noteq> [] \<longrightarrow> search_query result = Artist result)"
proof (intro conjI impI allI)
  assume "SongTitle result = [] \<and> Artist result = []"
  then show "search_and_play e result token = ([], 0)"
    by (simp add: search_and_play_def)
next
  assume "SongTitle result \<noteq> [] \<or> Artist result \<noteq> []"
  then show "\<exists>rest. fst (search_and_play e result token)
            = HttpDo (search_request (AccessToken token) (search_query result)) # rest
          \<and> (rest = [] \<or> (\<exists>uri. rest = [HttpDo (play_request (AccessToken token) uri)]))"
    by (rule search_and_play_events)
next
  fix uri
  assume "SongTitle result \<noteq> [] \<or> Artist result \<noteq> []"
    and "snd (SearchTrack e (AccessToken token) (search_query result)) = Inr uri"
  then show "fst (search_and_play e result token)
                = [HttpDo (search_request (AccessToken token) (search_query result)),
                   HttpDo (play_request (AccessToken token) uri)]"
    by (rule search_and_play_found)
qed (simp_all add: search_query_def)

theorem search_and_play_guard_and_query_witness:
  "SongTitle imagine \<noteq> [] \<and> Artist imagine \<noteq> []
   \<and> search_query imagine = ''Imagine John Lennon''
   \<and> snd (SearchTrack playing_env (AccessToken old_token) ''Imagine John Lennon'')
       = Inr ''spotify:track:1''
   \<and> fst (search_and_play playing_env imagine old_token)
       = [HttpDo (search_request ''old-access'' ''Imagine John Lennon''),
          HttpDo (play_request ''old-access'' ''spotify:track:1'')]
   \<and> search_query (imagine\<lparr>Artist := []\<rparr>) = ''Imagine''
   \<and> search_query (imagine\<lparr>SongTitle := []\<rparr>) = ''John Lennon''
   \<and> search_and_play playing_env (imagine\<lparr>SongTitle := [], Artist := []\<rparr>) old_token = ([], 0)"
proof -
  have t: "SongTitle imagine \<noteq> []" and a: "Artist imagine \<noteq> []"
    by (simp_all add: imagine_def)
  have tok: "AccessToken old_token = ''old-access''"
    by (simp add: old_token_def)
  note both = search_and_play_guard_and_query [of imagine playing_env old_token]
  from both t a have q: "search_query imagine = ''Imagine John Lennon''"
    by (simp add: imagine_def)
  have found: "snd (SearchTrack playing_env (AccessToken old_token) (search_query imagine))
       = Inr ''spotify:track:1''"
    by (simp add: q SearchTrack_def Let_def search_request_def playing_env_def)
  from both t found
  have run: "fst (search_and_play playing_env imagine old_token)
       = [HttpDo (search_request ''old-access'' ''Imagine John Lennon''),
          HttpDo (play_request ''old-access'' ''spotify:track:1'')]"
    by (simp add: q tok)
  from search_and_play_guard_and_query [of "imagine\<lparr>Artist := []\<rparr>" playing_env old_token]
  have q1: "search_query (imagine\<lparr>Artist := []\<rparr>) = ''Imagine''"
    by (simp add: imagine_def)
  from search_and_play_guard_and_query [of "imagine\<lparr>SongTitle := []\<rparr>" playing_env old_token]
  have q2: "search_query (imagine\<lparr>SongTitle := []\<rparr>) = ''John Lennon''"
    by (simp add: imagine_def)
  from search_and_play_guard_and_query
         [of "imagine\<lparr>SongTitle := [], Artist := []\<rparr>" playing_env old_token]
  have none: "search_and_play playing_env (imagine\<lparr>SongTitle := [], Artist := []\<rparr>) old_token
                = ([], 0)"
    by simp
  from t a q found run q1 q2 none show ?thesis by (simp add: q)
qed

section \<open>The whole run\<close>

text \<open>
  When the session flow yields a token, \<open>main\<close> continues with the search and exits
  with its code.
\<close>

lemma main_spotify_events:
  assumes "snd (snd (session e files
             (New (SpotifyClientID cfg) (SpotifyClientSecret cfg)
                ''http://127.0.0.1:8888/callback''
                [''user-read-private'', ''user-read-email'',
                 ''user-modify-playback-state'', ''user-read-playback-state'']
                ''some-random-state''))) = Returns token"
  shows "fst (snd (main_spotify e files cfg result))
           = fst (snd (session e files
                (New (SpotifyClientID cfg) (SpotifyClientSecret cfg)
                   ''http://127.0.0.1:8888/callback''
                   [''user-read-private'', ''user-read-email'',
                    ''user-modify-playback-state'', ''user-read-playback-state'']
                   ''some-random-state'')))
             @ fst (search_and_play e result token)"
    and "snd (snd (main_spotify e files cfg result)) = Exits (snd (search_and_play e result token))"
  using assms
  by (auto simp: main_spotify_def Let_def split: prod.splits outcome.splits)

lemma example_client_cfg:
  "New (SpotifyClientID example_cfg) (SpotifyClientSecret example_cfg)
     ''http://127.0.0.1:8888/callback''
     [''user-read-private'', ''user-read-email'',
      ''user-modify-playback-state'', ''user-read-playback-state'']
     ''some-random-state'' = example_client"
  by (simp add: example_cfg_def example_client_def)

lemma playing_session:
  "session playing_env stored_files example_client =
     (stored_files(tokenFile \<mapsto> JSON (encode_Token
        \<lparr>AccessToken = ''new-access'', RefreshToken = ''r1'', ExpiresIn = 3600,
         TokenType = ''Bearer'', Scope = ''user-read-private''\<rparr>)),
      [HttpDo (refresh_request example_client ''r1'')],
      Returns \<lparr>AccessToken = ''new-access'', RefreshToken = ''r1'', ExpiresIn = 3600,
         TokenType = ''Bearer'', Scope = ''user-read-private''\<rparr>)"
proof -
  have d: "http_Do playing_env (refresh_request example_client ''r1'') = Resp 200 refreshed_body"
    by (simp add: playing_env_def refresh_request_def)
  show ?thesis
    by (simp add: session_def stored_files_load old_token_def RefreshAccessToken_def Let_def d
        refreshed_body_decodes)
      (simp add: SaveToken_def playing_env_def example_env_def)
qed

lemma playing_search:
  "search_and_play playing_env imagine
     \<lparr>AccessToken = ''new-access'', RefreshToken = ''r1'', ExpiresIn = 3600,
      TokenType = ''Bearer'', Scope = ''user-read-private''\<rparr> =
     ([HttpDo (search_request ''new-access'' ''Imagine John Lennon''),
       HttpDo (play_request ''new-access'' ''spotify:track:1'')], 0)"
  by (simp add: search_and_play_def search_query_def imagine_def SearchTrack_def PlayTrack_def
      Let_def playing_env_def search_request_def play_request_def)

text \<open>
  The run of the example: the token is refreshed and saved, the track is searched
  with the query \<open>Imagine John Lennon\<close> and played, and the process exits with 0.
\<close>

lemma main_spotify_example:
  "main_spotify playing_env stored_files example_cfg imagine =
     (stored_files(tokenFile \<mapsto> JSON (encode_Token
        \<lparr>AccessToken = ''new-access'', RefreshToken = ''r1'', ExpiresIn = 3600,
         TokenType = ''Bearer'', Scope = ''user-read-private''\<rparr>)),
      [HttpDo (refresh_request example_client ''r1''),
       HttpDo (search_request ''new-access'' ''Imagine John Lennon''),
       HttpDo (play_request ''new-access'' ''spotify:track:1'')],
      Exits 0)"
  by (simp add: main_spotify_def example_client_cfg playing_session playing_search)

lemma search_url_example:
  "req_url (search_request ''new-access'' ''Imagine John Lennon'')
     = ''https://api.spotify.com/v1/search?type=track&limit=1&q=Imagine+John+Lennon''"
  by (simp add: search_request_def unreserved_def)

end
